theory Spec2Isabelle
  imports Main "HOL-Library.Sublist"
begin

section \<open>JavaScript values\<close>

text \<open>
  The values the schema compiler inspects: attribute definitions, configuration trees and
  resolver maps are plain JavaScript data.  A plain object is an association list in the
  order of \<^verbatim>\<open>Object.keys\<close>; a function is opaque and named by a number.  An array is
  an object too and is kept as its own enumerable properties in key order: the elements
  under the index keys \<^verbatim>\<open>"0"\<close>, \<^verbatim>\<open>"1"\<close>, ..., followed by any named property it was
  given.  Its \<^verbatim>\<open>length\<close> is not a property of the model, and the key \<^verbatim>\<open>__proto__\<close> has
  no special meaning here.
\<close>

datatype jsval =
    JUndefined
  | JNull
  | JBool bool
  | JNum int
  | JStr string
  | JFun nat
  | JArr "(string \<times> jsval) list"
  | JObj "(string \<times> jsval) list"

datatype error = TypeError | GraphQLError

text \<open>Truthiness, as \<^verbatim>\<open>if (v)\<close>, \<^verbatim>\<open>v ? a : b\<close> and \<^verbatim>\<open>v || w\<close> test it.\<close>

fun truthy :: "jsval \<Rightarrow> bool" where
  "truthy JUndefined = False"
| "truthy JNull = False"
| "truthy (JBool b) = b"
| "truthy (JNum n) = (n \<noteq> 0)"
| "truthy (JStr s) = (s \<noteq> [])"
| "truthy (JFun f) = True"
| "truthy (JArr kvs) = True"
| "truthy (JObj kvs) = True"

definition js_or :: "jsval \<Rightarrow> jsval \<Rightarrow> jsval" where
  "js_or a b = (if truthy a then a else b)"

text \<open>\<^verbatim>\<open>_.isPlainObject\<close> and \<^verbatim>\<open>_.isEmpty\<close> of lodash on these values.\<close>

fun isPlainObject :: "jsval \<Rightarrow> bool" where
  "isPlainObject (JObj kvs) = True"
| "isPlainObject v = False"


fun isEmpty :: "jsval \<Rightarrow> bool" where
  "isEmpty (JObj kvs) = (kvs = [])"
| "isEmpty (JArr kvs) = (kvs = [])"
| "isEmpty (JStr s) = (s = [])"
| "isEmpty v = True"

text \<open>Property read \<^verbatim>\<open>o[k]\<close>: \<^verbatim>\<open>undefined\<close> for a missing key.\<close>

fun js_get :: "jsval \<Rightarrow> string \<Rightarrow> jsval" where
  "js_get (JObj kvs) k = (case map_of kvs k of Some v \<Rightarrow> v | None \<Rightarrow> JUndefined)"
| "js_get (JArr kvs) k = (case map_of kvs k of Some v \<Rightarrow> v | None \<Rightarrow> JUndefined)"
| "js_get v k = JUndefined"


text \<open>
  Property write \<^verbatim>\<open>o[k] = v\<close> on the entries of a plain object: an existing key keeps
  its place, a new key goes last.
\<close>

fun set_prop :: "(string \<times> jsval) list \<Rightarrow> string \<Rightarrow> jsval \<Rightarrow> (string \<times> jsval) list" where
  "set_prop [] k v = [(k, v)]"
| "set_prop ((k', v') # kvs) k v =
     (if k' = k then (k, v) # kvs else (k', v') # set_prop kvs k v)"

section \<open>Strings\<close>

text \<open>
  \<^verbatim>\<open>String.prototype.toUpperCase\<close> and lodash's \<^verbatim>\<open>_.upperFirst\<close>, on ASCII letters;
  other characters are left as they are.
\<close>

definition toUpperChar :: "char \<Rightarrow> char" where
  "toUpperChar c =
     (let n = (of_char c :: nat) in if 97 \<le> n \<and> n \<le> 122 then char_of (n - 32) else c)"

definition toUpperCase :: "string \<Rightarrow> string" where
  "toUpperCase s = map toUpperChar s"

fun upperFirst :: "string \<Rightarrow> string" where
  "upperFirst [] = []"
| "upperFirst (c # cs) = toUpperChar c # cs"

text \<open>\<^verbatim>\<open>Array.prototype.join\<close> on strings.\<close>

fun join :: "string \<Rightarrow> string list \<Rightarrow> string" where
  "join sep [] = []"
| "join sep [x] = x"
| "join sep (x # y # ys) = x @ sep @ join sep (y # ys)"

abbreviation nl :: string where
  "nl \<equiv> [CHR 0x0A]"



section \<open>Models, attributes and the host\<close>

text \<open>
  An attribute definition, with the fields \<^verbatim>\<open>convertType\<close> reads.  A field that is
  absent is \<^verbatim>\<open>undefined\<close>.  \<^verbatim>\<open>enumName\<close> and \<^verbatim>\<open>component\<close> are strings when present.
\<close>

record attribute =
  type :: jsval
  required :: jsval
  default :: jsval
  enumName :: "string option"
  component :: "string option"
  repeatable :: jsval
  model :: jsval
  collection :: jsval
  plugin :: jsval

definition emptyAttribute :: attribute where
  "emptyAttribute =
     \<lparr> type = JUndefined, required = JUndefined, default = JUndefined, enumName = None,
       component = None, repeatable = JUndefined, model = JUndefined,
       collection = JUndefined, plugin = JUndefined \<rparr>"

record model =
  globalId :: string
  kind :: string
  attributes :: "(string \<times> attribute) list"

text \<open>
  What the module takes from outside: the global \<^verbatim>\<open>siapi\<close> (component registry,
  \<^verbatim>\<open>siapi.db.getModel\<close>, and the tree at
  \<^verbatim>\<open>siapi.plugins.graphql.config._schema.graphql.type\<close>), the functions of
  \<^verbatim>\<open>./naming\<close>, and lodash's \<^verbatim>\<open>_.camelCase\<close>.  They are parameters of the model.
\<close>

record env =
  components :: "string \<Rightarrow> model option"
  getModel :: "jsval \<Rightarrow> jsval \<Rightarrow> model option"
  typeConfig :: jsval
  toSingular :: "string \<Rightarrow> string"
  toInputName :: "string \<Rightarrow> string"
  camelCase :: "string \<Rightarrow> string"

section \<open>The type mapper\<close>

definition isScalarAttribute :: "attribute \<Rightarrow> bool" where
  "isScalarAttribute a =
     (truthy (attribute.type a) \<and>
      attribute.type a \<notin> set [JStr ''component'', JStr ''dynamiczone''])"

definition isTypeAttributeEnabled :: "env \<Rightarrow> model \<Rightarrow> string \<Rightarrow> bool" where
  "isTypeAttributeEnabled e m attr =
     (js_get (js_get (typeConfig e) (globalId m)) attr \<noteq> JBool False)"

definition convertEnumType :: "attribute \<Rightarrow> string \<Rightarrow> string \<Rightarrow> string" where
  "convertEnumType definition' model' field =
     (case enumName definition' of
        Some n \<Rightarrow>
          if n \<noteq> [] then n
          else ''ENUM_'' @ toUpperCase model' @ ''_'' @ toUpperCase field
      | None \<Rightarrow> ''ENUM_'' @ toUpperCase model' @ ''_'' @ toUpperCase field)"

text \<open>The \<^verbatim>\<open>switch\<close> of \<^verbatim>\<open>convertType\<close> on \<^verbatim>\<open>attribute.type\<close>, starting from \<^verbatim>\<open>'String'\<close>.\<close>

definition scalarTypeName :: "attribute \<Rightarrow> string \<Rightarrow> string \<Rightarrow> string" where
  "scalarTypeName a modelName attributeName =
     (let t = attribute.type a in
      if t = JStr ''boolean'' then ''Boolean''
      else if t = JStr ''integer'' then ''Int''
      else if t = JStr ''biginteger'' then ''Long''
      else if t = JStr ''float'' \<or> t = JStr ''decimal'' then ''Float''
      else if t = JStr ''json'' then ''JSON''
      else if t = JStr ''date'' then ''Date''
      else if t = JStr ''time'' then ''Time''
      else if t = JStr ''datetime'' \<or> t = JStr ''timestamp'' then ''DateTime''
      else if t = JStr ''enumeration'' then convertEnumType a modelName attributeName
      else ''String'')"

definition convertType ::
  "env \<Rightarrow> attribute \<Rightarrow> string \<Rightarrow> string \<Rightarrow> string \<Rightarrow> string \<Rightarrow> error + string" where
  "convertType e a modelName attributeName rootType action =
     (if isScalarAttribute a then
        (let t = scalarTypeName a modelName attributeName in
         if truthy (required a) then
           (if rootType \<noteq> ''mutation'' \<or> (action \<noteq> ''update'' \<and> default a = JUndefined)
            then Inr (t @ ''!'')
            else Inr t)
         else Inr t)
      else if attribute.type a = JStr ''component'' then
        (case components e (case component a of Some c \<Rightarrow> c | None \<Rightarrow> ''undefined'') of
           None \<Rightarrow> Inl TypeError
         | Some c \<Rightarrow>
            (let gid = globalId c;
                 typeName =
                   (if rootType = ''mutation'' then
                      (if action = ''update''
                       then ''edit'' @ upperFirst (toSingular e gid) @ ''Input''
                       else upperFirst (toSingular e gid) @ ''Input'' @
                            (if truthy (required a) then ''!'' else ''''))
                    else (if required a = JBool True then gid else gid))
             in if repeatable a = JBool True then Inr (''['' @ typeName @ '']'')
                else Inr typeName))
      else if attribute.type a = JStr ''dynamiczone'' then
        (let unionName = modelName @ upperFirst (camelCase e attributeName) @ ''DynamicZone'';
             typeName = (if rootType = ''mutation'' then unionName @ ''Input!'' else unionName)
         in Inr (''['' @ typeName @ '']'' @ (if truthy (required a) then ''!'' else '''')))
      else
        (let ref = js_or (model a) (collection a) in
         if truthy ref \<and> ref \<noteq> JStr ''*'' then
           (case getModel e ref (plugin a) of
              None \<Rightarrow> Inl TypeError
            | Some m \<Rightarrow>
               (let plural = \<not> isEmpty (collection a) in
                if plural then
                  (if rootType = ''mutation'' then Inr ''[ID]''
                   else Inr (''['' @ globalId m @ '']''))
                else if rootType = ''mutation'' then Inr ''ID''
                else Inr (globalId m)))
         else if rootType = ''mutation'' then
           Inr (if truthy (model a) then ''ID'' else ''[ID]'')
         else Inr (if truthy (model a) then ''Morph'' else ''[Morph]'')))"

section \<open>Input and payload generation\<close>

definition addInput :: string where
  "addInput = nl @ ''      input InputID { id: ID!}'' @ nl @ ''    ''"

text \<open>
  The \<^verbatim>\<open>.map(attributeName => ...)\<close> of \<^verbatim>\<open>generateInputModel\<close>: one line
  \<^verbatim>\<open>name: Type\<close> for each attribute name, in order; the first \<^verbatim>\<open>convertType\<close> that
  throws ends the whole call.  \<^verbatim>\<open>model.attributes[attributeName]\<close> that is
  \<^verbatim>\<open>undefined\<close> takes the default \<^verbatim>\<open>{}\<close> of \<^verbatim>\<open>convertType\<close>.
\<close>

fun fieldLines :: "env \<Rightarrow> model \<Rightarrow> string \<Rightarrow> string list \<Rightarrow> error + string list" where
  "fieldLines e m action [] = Inr []"
| "fieldLines e m action (attributeName # rest) =
     (case convertType e
             (case map_of (attributes m) attributeName of Some a \<Rightarrow> a | None \<Rightarrow> emptyAttribute)
             (globalId m) attributeName ''mutation'' action of
        Inl err \<Rightarrow> Inl err
      | Inr t \<Rightarrow>
         (case fieldLines e m action rest of
            Inl err \<Rightarrow> Inl err
          | Inr ls \<Rightarrow> Inr ((attributeName @ '': '' @ t) # ls)))"

text \<open>The field name of a line \<^verbatim>\<open>name: Type\<close>: the text before the first colon.\<close>

definition fieldName :: "string \<Rightarrow> string" where
  "fieldName line = takeWhile (\<lambda>c. c \<noteq> CHR '':'') line"

definition generateInputModel :: "env \<Rightarrow> model \<Rightarrow> string \<Rightarrow> bool \<Rightarrow> error + string" where
  "generateInputModel e m name allowIds =
     (let inputName = upperFirst (toSingular e name) @ ''Input'';
          keys = map fst (attributes m);
          hasAllAttributesDisabled = list_all (\<lambda>attr. \<not> isTypeAttributeEnabled e m attr) keys
      in
      if attributes m = [] \<or> hasAllAttributesDisabled then
        Inr (nl @ ''      input '' @ inputName @ '' {'' @ nl @
             ''        _: String'' @ nl @
             ''      }'' @ nl @
             nl @
             ''      input edit'' @ inputName @ '' {'' @ nl @
             ''        '' @ (if allowIds then ''id: ID'' else ''_: String'') @ nl @
             ''      }'' @ nl @
             ''     '')
      else
        (case fieldLines e m [] (filter (isTypeAttributeEnabled e m) keys) of
           Inl err \<Rightarrow> Inl err
         | Inr cs \<Rightarrow>
            (case fieldLines e m ''update'' (filter (isTypeAttributeEnabled e m) keys) of
               Inl err \<Rightarrow> Inl err
             | Inr es \<Rightarrow>
                Inr (nl @ ''      input '' @ inputName @ '' {'' @ nl @
                     nl @
                     ''        '' @ join nl cs @ nl @
                     ''      }'' @ nl @
                     nl @
                     ''      input edit'' @ inputName @ '' {'' @ nl @
                     ''        '' @ (if allowIds then ''id: ID'' else []) @ nl @
                     ''        '' @ join nl es @ nl @
                     ''      }'' @ nl @
                     ''    ''))))"

text \<open>The result is \<^verbatim>\<open>undefined\<close> (here \<open>None\<close>) for an action the \<^verbatim>\<open>switch\<close> does not list.\<close>

definition generateInputPayloadArguments ::
  "env \<Rightarrow> model \<Rightarrow> string \<Rightarrow> string \<Rightarrow> string \<Rightarrow> string option" where
  "generateInputPayloadArguments e m name mutationName action =
     (let singularName = toSingular e name;
          inputName = toInputName e name
      in
      if action = ''create'' then
        Some (nl @ ''          input '' @ mutationName @ ''Input { data: '' @ inputName @ '' }'' @ nl @
              ''          type '' @ mutationName @ ''Payload { '' @ singularName @ '': '' @ globalId m @ '' }'' @ nl @
              ''        '')
      else if action = ''update'' then
        (if model.kind m = ''singleType'' then
           Some (nl @ ''          input '' @ mutationName @ ''Input  { data: edit'' @ inputName @ '' }'' @ nl @
                 ''          type '' @ mutationName @ ''Payload { '' @ singularName @ '': '' @ globalId m @ '' }'' @ nl @
                 ''        '')
         else
           Some (nl @ ''          input '' @ mutationName @ ''Input  { where: InputID, data: edit'' @ inputName @ '' }'' @ nl @
                 ''          type '' @ mutationName @ ''Payload { '' @ singularName @ '': '' @ globalId m @ '' }'' @ nl @
                 ''        ''))
      else if action = ''delete'' then
        (if model.kind m = ''singleType'' then
           Some (nl @ ''          type '' @ mutationName @ ''Payload { '' @ singularName @ '': '' @ globalId m @ '' }'' @ nl @
                 ''        '')
         else
           Some (nl @ ''          input '' @ mutationName @ ''Input  { where: InputID }'' @ nl @
                 ''          type '' @ mutationName @ ''Payload { '' @ singularName @ '': '' @ globalId m @ '' }'' @ nl @
                 ''        ''))
      else None)"

section \<open>The polymorphic union\<close>

text \<open>
  A top-level definition of a parsed document, with what the union builder reads of it:
  \<^verbatim>\<open>def.kind\<close> and \<^verbatim>\<open>def.name.value\<close>.  The parser \<^verbatim>\<open>graphql.parse\<close> belongs to the
  graphql library and is a parameter: it gives the definitions of a text in the
  order they occur, or throws a syntax error.
\<close>

record definitionNode =
  kind :: string
  name_value :: string

text \<open>The \<^verbatim>\<open>__resolveType\<close> rule: \<^verbatim>\<open>obj.kind || obj.__contentType || null\<close>.\<close>

definition resolveType :: "jsval \<Rightarrow> error + jsval" where
  "resolveType obj =
     (if obj = JUndefined \<or> obj = JNull then Inl TypeError
      else Inr (js_or (js_or (js_get obj ''kind'') (js_get obj ''__contentType'')) JNull))"

record unionType =
  definition' :: string
  resolvers :: "(string \<times> (string \<times> (jsval \<Rightarrow> error + jsval)) list) list"

definition addPolymorphicUnionType ::
  "(string \<Rightarrow> error + definitionNode list) \<Rightarrow> string \<Rightarrow> error + unionType" where
  "addPolymorphicUnionType parse definition_text =
     (case parse definition_text of
        Inl err \<Rightarrow> Inl err
      | Inr definitions \<Rightarrow>
         (let types =
                map name_value
                  (filter (\<lambda>def. definitionNode.kind def = ''ObjectTypeDefinition'' \<and>
                                  name_value def \<noteq> ''Query'') definitions)
          in
          if length types > 0 then
            Inr \<lparr> definition' = ''union Morph = '' @ join '' | '' types,
                  resolvers = [(''Morph'', [(''__resolveType'', resolveType)])] \<rparr>
          else Inr \<lparr> definition' = [], resolvers = [] \<rparr>))"

section \<open>Schema fragments\<close>

text \<open>
  A schema fragment.  The three text fields are strings when present; \<^verbatim>\<open>type\<close> and
  \<^verbatim>\<open>resolver\<close> are any value, \<^verbatim>\<open>undefined\<close> when absent.
\<close>

record schema =
  definition' :: "string option"
  query :: "string option"
  mutation :: "string option"
  type :: jsval
  resolver :: jsval

definition emptySchema :: schema where
  "emptySchema =
     \<lparr> definition' = None, query = None, mutation = None, type = JUndefined,
       resolver = JUndefined \<rparr>"

subsection \<open>Resolver metadata\<close>

definition annotateEntry :: "jsval \<Rightarrow> jsval \<Rightarrow> jsval \<Rightarrow> jsval" where
  "annotateEntry api plugin' entry =
     (case entry of
        JObj props \<Rightarrow> JObj (set_prop props ''_metadatas'' (JObj [(''api'', api), (''plugin'', plugin')]))
      | _ \<Rightarrow> entry)"

definition annotateType :: "jsval \<Rightarrow> jsval \<Rightarrow> jsval \<Rightarrow> jsval" where
  "annotateType api plugin' t =
     (case t of
        JObj entries \<Rightarrow>
          JObj (map (\<lambda>(resolverName, entry). (resolverName, annotateEntry api plugin' entry)) entries)
      | _ \<Rightarrow> t)"

text \<open>
  The source updates the entries in place and returns the same fragment; the model
  returns the fragment with the updated resolver map.
\<close>

definition attachMetadataToResolvers :: "schema \<Rightarrow> jsval \<Rightarrow> jsval \<Rightarrow> schema" where
  "attachMetadataToResolvers s api plugin' =
     (let resolver' = (if resolver s = JUndefined then JObj [] else resolver s) in
      if isEmpty resolver' then s
      else
        (case resolver' of
           JObj types \<Rightarrow>
             s\<lparr> resolver := JObj (map (\<lambda>(t, v). (t, annotateType api plugin' v)) types) \<rparr>
         | JArr types \<Rightarrow>
             s\<lparr> resolver := JArr (map (\<lambda>(t, v). (t, annotateType api plugin' v)) types) \<rparr>
         | _ \<Rightarrow> s))"

subsection \<open>Merging\<close>


text \<open>
  lodash's \<^verbatim>\<open>_.merge(object, source)\<close>, after its documentation and its function
  \<^verbatim>\<open>baseMergeDeep\<close>.  The keys of the source are visited in order, the index keys of
  an array like the keys of an object.  A source value that is an array is merged key
  by key into the destination's value when that is an array, into a copy of it when
  it is an array-like object, and into a fresh \<^verbatim>\<open>[]\<close> otherwise.  A source value that
  is a plain object is merged key by key into the destination's value when that is an
  object or an array, and into a fresh \<^verbatim>\<open>{}\<close> when it is not an object, or is a
  function.  A source value \<^verbatim>\<open>undefined\<close> leaves an existing destination value.  Any
  other source value is assigned.
\<close>









section \<open>A small host for concrete runs\<close>

definition demoEnv :: env where
  "demoEnv =
     \<lparr> components =
         (\<lambda>k. if k = ''shared.media''
              then Some \<lparr> globalId = ''SharedMedia'', kind = ''collectionType'', attributes = [] \<rparr>
              else None),
       getModel = (\<lambda>ref' plugin'. None),
       typeConfig =
         JObj [(''Secret'', JObj [(''token'', JBool False), (''salt'', JBool False)]),
               (''Article'', JObj [(''draft'', JBool False)])],
       toSingular = (\<lambda>s. s),
       toInputName = (\<lambda>s. upperFirst s @ ''Input''),
       camelCase = (\<lambda>s. s) \<rparr>"

definition secretModel :: model where
  "secretModel =
     \<lparr> globalId = ''Secret'', kind = ''collectionType'',
       attributes =
         [(''token'', emptyAttribute\<lparr>attribute.type := JStr ''string'', required := JBool True\<rparr>),
          (''salt'', emptyAttribute\<lparr>attribute.type := JStr ''string''\<rparr>)] \<rparr>"

definition articleModel :: model where
  "articleModel =
     \<lparr> globalId = ''Article'', kind = ''collectionType'',
       attributes =
         [(''title'', emptyAttribute\<lparr>attribute.type := JStr ''string'', required := JBool True\<rparr>),
          (''draft'', emptyAttribute\<lparr>attribute.type := JStr ''boolean''\<rparr>),
          (''views'', emptyAttribute\<lparr>attribute.type := JStr ''integer''\<rparr>)] \<rparr>"

definition homepageModel :: model where
  "homepageModel = \<lparr> globalId = ''Homepage'', kind = ''singleType'', attributes = [] \<rparr>"

definition tagModel :: model where
  "tagModel =
     \<lparr> globalId = ''Tag'', kind = ''collectionType'',
       attributes =
         [(''id'', emptyAttribute\<lparr>attribute.type := JStr ''integer''\<rparr>),
          (''name'', emptyAttribute\<lparr>attribute.type := JStr ''string''\<rparr>)] \<rparr>"

text \<open>The values of \<^verbatim>\<open>attribute.type\<close> that \<^verbatim>\<open>convertType\<close> tests for by name.\<close>

definition recognizedTypes :: "jsval list" where
  "recognizedTypes =
     map JStr [''boolean'', ''integer'', ''biginteger'', ''float'', ''decimal'', ''json'', ''date'',
       ''time'', ''datetime'', ''timestamp'', ''enumeration'', ''component'', ''dynamiczone'']"

text \<open>The list \<^verbatim>\<open>types\<close> of \<^verbatim>\<open>addPolymorphicUnionType\<close>, for a parsed document.\<close>

definition unionMembers :: "definitionNode list \<Rightarrow> string list" where
  "unionMembers definitions =
     map name_value
       (filter (\<lambda>def. definitionNode.kind def = ''ObjectTypeDefinition'' \<and>
                       name_value def \<noteq> ''Query'') definitions)"

text \<open>
  The parser on three texts, as \<^verbatim>\<open>graphql.parse\<close> gives them: it checks the syntax
  only, so a type defined twice is two definitions.  Texts outside the table are not
  needed below; the one used, \<^verbatim>\<open>type {\<close>, is a syntax error.
\<close>

definition blogText :: string where
  "blogText =
     ''type Article { title: String } input ArticleInput { title: String } '' @
     ''type Author { name: String } type Query { articles: [Article] }''"

definition twiceText :: string where
  "twiceText = ''type A { x: Int } type A { y: Int } type Query { a: A }''"

definition scalarText :: string where
  "scalarText = ''scalar JSON type Query { raw: JSON }''"

definition parseTable :: "string \<Rightarrow> error + definitionNode list" where
  "parseTable src =
     (if src = blogText then
        Inr [\<lparr> definitionNode.kind = ''ObjectTypeDefinition'', name_value = ''Article'' \<rparr>,
             \<lparr> definitionNode.kind = ''InputObjectTypeDefinition'', name_value = ''ArticleInput'' \<rparr>,
             \<lparr> definitionNode.kind = ''ObjectTypeDefinition'', name_value = ''Author'' \<rparr>,
             \<lparr> definitionNode.kind = ''ObjectTypeDefinition'', name_value = ''Query'' \<rparr>]
      else if src = twiceText then
        Inr [\<lparr> definitionNode.kind = ''ObjectTypeDefinition'', name_value = ''A'' \<rparr>,
             \<lparr> definitionNode.kind = ''ObjectTypeDefinition'', name_value = ''A'' \<rparr>,
             \<lparr> definitionNode.kind = ''ObjectTypeDefinition'', name_value = ''Query'' \<rparr>]
      else if src = scalarText then
        Inr [\<lparr> definitionNode.kind = ''ScalarTypeDefinition'', name_value = ''JSON'' \<rparr>,
             \<lparr> definitionNode.kind = ''ObjectTypeDefinition'', name_value = ''Query'' \<rparr>]
      else Inl GraphQLError)"

text \<open>
  Fragments as a source contributes them: resolver entries are functions or objects,
  and an object entry may hold an array, such as its policies.
\<close>

definition fragmentFn :: schema where
  "fragmentFn = emptySchema\<lparr> resolver := JObj [(''Query'', JObj [(''articles'', JFun 1)])] \<rparr>"

definition fragmentObj :: schema where
  "fragmentObj =
     emptySchema\<lparr> resolver :=
       JObj [(''Query'',
              JObj [(''articles'',
                     JObj [(''description'', JStr ''All articles''),
                           (''resolver'', JStr ''application::article.article.find'')]),
                    (''count'', JFun 1)])] \<rparr>"



section \<open>Helper lemmas\<close>

lemma toUpperChar_letters:
  "toUpperChar CHR ''a'' = CHR ''A''"
  "toUpperChar CHR ''h'' = CHR ''H''"
  "toUpperChar CHR ''s'' = CHR ''S''"
  "toUpperChar CHR ''t'' = CHR ''T''"
  by code_simp+

lemma fieldLines_lines:
  "fieldLines e m action ks = Inr ls \<Longrightarrow>
   list_all2
     (\<lambda>k l. \<exists>t. convertType e
                    (case map_of (attributes m) k of Some a \<Rightarrow> a | None \<Rightarrow> emptyAttribute)
                    (globalId m) k ''mutation'' action = Inr t \<and> l = k @ '': '' @ t)
     ks ls"
proof (induction ks arbitrary: ls)
  case Nil
  then show ?case by simp
next
  case (Cons k ks)
  then show ?case
    by (auto split: sum.splits)
qed

lemma article_enabled:
  "filter (isTypeAttributeEnabled demoEnv articleModel) (map fst (attributes articleModel)) =
     [''title'', ''views'']"
  by (simp add: articleModel_def isTypeAttributeEnabled_def demoEnv_def)

lemma article_create_lines:
  "fieldLines demoEnv articleModel [] [''title'', ''views''] = Inr [''title: String!'', ''views: Int'']"
  by (simp add: articleModel_def convertType_def isScalarAttribute_def scalarTypeName_def
      emptyAttribute_def)

lemma article_edit_lines:
  "fieldLines demoEnv articleModel ''update'' [''title'', ''views''] = Inr [''title: String'', ''views: Int'']"
  by (simp add: articleModel_def convertType_def isScalarAttribute_def scalarTypeName_def
      emptyAttribute_def)

lemma count_list_map_filter:
  "count_list (map f (filter P xs)) n = length (filter (\<lambda>x. P x \<and> f x = n) xs)"
  by (induction xs) auto

lemma subseq_map_filter: "subseq (map f (filter P xs)) (map f xs)"
  by (induction xs) auto

lemma map_of_set_prop: "map_of (set_prop kvs k v) = (map_of kvs)(k \<mapsto> v)"
  by (induction kvs) auto

lemma js_get_set_prop:
  "js_get (JObj (set_prop kvs k v)) k' = (if k' = k then v else js_get (JObj kvs) k')"
  by (simp add: map_of_set_prop)

lemma js_get_annotateEntry:
  "js_get (annotateEntry api plugin' (JObj props)) k =
     (if k = ''_metadatas'' then JObj [(''api'', api), (''plugin'', plugin')]
      else js_get (JObj props) k)"
  by (simp add: annotateEntry_def map_of_set_prop)

lemma js_get_annotateType:
  "map_of entries n = Some entry \<Longrightarrow>
   js_get (annotateType api plugin' (JObj entries)) n = annotateEntry api plugin' entry"
  by (simp add: annotateType_def map_of_map)

lemma js_get_attach:
  assumes "resolver s = JObj types" and "map_of types t = Some v"
  shows "js_get (resolver (attachMetadataToResolvers s api plugin')) t = annotateType api plugin' v"
proof -
  have "types \<noteq> []"
    using assms(2) by auto
  then show ?thesis
    using assms by (simp add: attachMetadataToResolvers_def map_of_map)
qed



























lemma fieldName_line: "CHR '':'' \<notin> set k \<Longrightarrow> fieldName (k @ '': '' @ t) = k"
proof -
  assume "CHR '':'' \<notin> set k"
  then have "\<forall>x \<in> set k. x \<noteq> CHR '':''"
    by auto
  then show ?thesis
    by (simp add: fieldName_def takeWhile_tail)
qed

lemma fieldName_lines:
  assumes "list_all2 (\<lambda>k l. \<exists>t. P k t \<and> l = k @ '': '' @ t) ks ls"
    and "\<forall>k \<in> set ks. CHR '':'' \<notin> set k"
  shows "map fieldName ls = ks"
  using assms
proof (induction ks ls rule: list_all2_induct)
  case Nil
  then show ?case by simp
next
  case (Cons k ks l ls)
  then obtain t where l: "l = k @ '': '' @ t"
    by auto
  have "CHR '':'' \<notin> set k"
    using Cons.prems by simp
  then have "fieldName l = k"
    unfolding l by (rule fieldName_line)
  then show ?case
    using Cons by simp
qed

section \<open>The type mapper: required scalars\<close>

text \<open>
  Claim C1.  For a scalar attribute (a truthy \<^verbatim>\<open>type\<close> other than component and
  dynamiczone) \<^verbatim>\<open>convertType\<close> returns the scalar name of the \<^verbatim>\<open>switch\<close>, followed by
  \<^verbatim>\<open>!\<close> exactly when \<^verbatim>\<open>required\<close> is truthy and it is not the case that the root type
  is \<^verbatim>\<open>mutation\<close> and (the action is \<^verbatim>\<open>update\<close> or a default is defined).  A required
  integer attribute gives \<^verbatim>\<open>Int!\<close> in query context and \<^verbatim>\<open>Int\<close> in mutation/update
  context.
\<close>

theorem convertType_scalar_required:
  "(isScalarAttribute a \<longrightarrow>
      convertType e a modelName attributeName rootType action =
        Inr (scalarTypeName a modelName attributeName @
             (if truthy (required a) \<and>
                 \<not> (rootType = ''mutation'' \<and> (action = ''update'' \<or> default a \<noteq> JUndefined))
              then ''!'' else [])))
   \<and> (attribute.type a = JStr ''integer'' \<and> truthy (required a) \<longrightarrow>
        convertType e a modelName attributeName ''query'' action = Inr ''Int!'' \<and>
        convertType e a modelName attributeName ''mutation'' ''update'' = Inr ''Int'')"
  by (simp add: convertType_def isScalarAttribute_def scalarTypeName_def Let_def)

theorem convertType_scalar_required_witness:
  "isScalarAttribute (emptyAttribute\<lparr>attribute.type := JStr ''integer'', required := JBool True\<rparr>)
   \<and> convertType demoEnv (emptyAttribute\<lparr>attribute.type := JStr ''integer'', required := JBool True\<rparr>)
        ''Article'' ''views'' ''query'' [] = Inr ''Int!''
   \<and> convertType demoEnv (emptyAttribute\<lparr>attribute.type := JStr ''integer'', required := JBool True\<rparr>)
        ''Article'' ''views'' ''mutation'' ''update'' = Inr ''Int''"
  using convertType_scalar_required
    [of "emptyAttribute\<lparr>attribute.type := JStr ''integer'', required := JBool True\<rparr>"
        demoEnv "''Article''" "''views''" "''query''" "[]"]
  by (simp add: isScalarAttribute_def emptyAttribute_def scalarTypeName_def)

text \<open>
  Claim C2, as stated: the attribute \<^verbatim>\<open>{type: "integer", required: true, default: 0}\<close>
  renders as \<^verbatim>\<open>Int\<close> in query context.  It does not: outside mutation context the test
  \<^verbatim>\<open>rootType !== 'mutation'\<close> alone decides, and the result is \<^verbatim>\<open>Int!\<close>.
\<close>

theorem default_in_query_counterexample:
  "convertType demoEnv
     (emptyAttribute\<lparr>attribute.type := JStr ''integer'', required := JBool True, default := JNum 0\<rparr>)
     [] [] ''query'' [] = Inr ''Int!''
   \<and> convertType demoEnv
     (emptyAttribute\<lparr>attribute.type := JStr ''integer'', required := JBool True, default := JNum 0\<rparr>)
     [] [] ''query'' [] \<noteq> Inr ''Int''"
  by (simp add: convertType_def isScalarAttribute_def scalarTypeName_def Let_def emptyAttribute_def)

text \<open>
  Claim C2, amended.  For the attribute \<^verbatim>\<open>{type: "integer", required: true, default: 0}\<close>
  \<^verbatim>\<open>convertType\<close> returns \<^verbatim>\<open>Int!\<close> in query context, with any action, as it does
  without the default; the default relaxes the requirement in mutation context only,
  where the result is \<^verbatim>\<open>Int\<close> for every action.
\<close>

theorem default_relaxes_only_in_mutation:
  "convertType e
     (emptyAttribute\<lparr>attribute.type := JStr ''integer'', required := JBool True, default := JNum 0\<rparr>)
     modelName attributeName ''query'' action = Inr ''Int!''
   \<and> convertType e
     (emptyAttribute\<lparr>attribute.type := JStr ''integer'', required := JBool True\<rparr>)
     modelName attributeName ''query'' action = Inr ''Int!''
   \<and> convertType e
     (emptyAttribute\<lparr>attribute.type := JStr ''integer'', required := JBool True, default := JNum 0\<rparr>)
     modelName attributeName ''mutation'' action = Inr ''Int''"
  by (simp add: convertType_def isScalarAttribute_def scalarTypeName_def Let_def emptyAttribute_def)

theorem default_relaxes_only_in_mutation_witness:
  "convertType demoEnv
     (emptyAttribute\<lparr>attribute.type := JStr ''integer'', required := JBool True, default := JNum 0\<rparr>)
     ''Article'' ''views'' ''query'' [] = Inr ''Int!''
   \<and> convertType demoEnv
     (emptyAttribute\<lparr>attribute.type := JStr ''integer'', required := JBool True, default := JNum 0\<rparr>)
     ''Article'' ''views'' ''mutation'' [] = Inr ''Int''"
  using default_relaxes_only_in_mutation [of demoEnv "''Article''" "''views''" "[]"]
  by simp

section \<open>The type mapper: components\<close>

text \<open>
  Claim C3.  For a component attribute whose component is registered, \<^verbatim>\<open>convertType\<close>
  in mutation context returns \<^verbatim>\<open>edit<UpperFirst(Singular(globalId))>Input\<close> for the
  action \<^verbatim>\<open>update\<close>, and otherwise \<^verbatim>\<open><UpperFirst(Singular(globalId))>Input\<close> followed by
  \<^verbatim>\<open>!\<close> exactly when \<^verbatim>\<open>required\<close> is truthy; the name is put in list brackets exactly
  when \<^verbatim>\<open>repeatable\<close> is \<^verbatim>\<open>true\<close>; in query context the name is the component's
  \<^verbatim>\<open>globalId\<close> and \<^verbatim>\<open>required\<close> does not change the result.
\<close>

theorem convertType_component:
  assumes "attribute.type a = JStr ''component''"
    and "components e (case component a of Some k \<Rightarrow> k | None \<Rightarrow> ''undefined'') = Some c"
  shows "convertType e a modelName attributeName ''mutation'' ''update'' =
           Inr (if repeatable a = JBool True
                then ''['' @ ''edit'' @ upperFirst (toSingular e (globalId c)) @ ''Input'' @ '']''
                else ''edit'' @ upperFirst (toSingular e (globalId c)) @ ''Input'')
         \<and> (action \<noteq> ''update'' \<longrightarrow>
              convertType e a modelName attributeName ''mutation'' action =
                Inr (if repeatable a = JBool True
                     then ''['' @ upperFirst (toSingular e (globalId c)) @ ''Input'' @
                          (if truthy (required a) then ''!'' else []) @ '']''
                     else upperFirst (toSingular e (globalId c)) @ ''Input'' @
                          (if truthy (required a) then ''!'' else [])))
         \<and> convertType e a modelName attributeName ''query'' action =
              Inr (if repeatable a = JBool True then ''['' @ globalId c @ '']'' else globalId c)
         \<and> convertType e (a\<lparr>required := r\<rparr>) modelName attributeName ''query'' action =
              convertType e a modelName attributeName ''query'' action"
  using assms by (simp add: convertType_def isScalarAttribute_def Let_def)

theorem convertType_component_witness:
  "convertType demoEnv
     (emptyAttribute\<lparr>attribute.type := JStr ''component'', component := Some ''shared.media'',
        repeatable := JBool True, required := JBool True\<rparr>)
     ''Article'' ''cover'' ''mutation'' ''create'' = Inr ''[SharedMediaInput!]''
   \<and> convertType demoEnv
     (emptyAttribute\<lparr>attribute.type := JStr ''component'', component := Some ''shared.media'',
        repeatable := JBool True, required := JBool True\<rparr>)
     ''Article'' ''cover'' ''mutation'' ''update'' = Inr ''[editSharedMediaInput]''
   \<and> convertType demoEnv
     (emptyAttribute\<lparr>attribute.type := JStr ''component'', component := Some ''shared.media'',
        repeatable := JBool True, required := JBool True\<rparr>)
     ''Article'' ''cover'' ''query'' ''create'' = Inr ''[SharedMedia]''"
  using convertType_component
    [of "emptyAttribute\<lparr>attribute.type := JStr ''component'', component := Some ''shared.media'',
           repeatable := JBool True, required := JBool True\<rparr>"
        demoEnv "\<lparr> globalId = ''SharedMedia'', kind = ''collectionType'', attributes = [] \<rparr>"
        "''Article''" "''cover''" "''create''" "JBool True"]
  by (simp add: emptyAttribute_def demoEnv_def toUpperChar_def)

section \<open>The type mapper: unrecognized kinds and failure\<close>

text \<open>
  Claim C8, as stated: no input to \<^verbatim>\<open>convertType\<close> raises an exception.  A component
  attribute whose component is not in \<^verbatim>\<open>siapi.components\<close> does: reading \<^verbatim>\<open>globalId\<close>
  of \<^verbatim>\<open>undefined\<close> throws a TypeError.
\<close>

theorem convertType_unregistered_component_counterexample:
  "convertType demoEnv
     (emptyAttribute\<lparr>attribute.type := JStr ''component'', component := Some ''shared.seo''\<rparr>)
     ''Article'' ''seo'' ''query'' [] = Inl TypeError"
  by (simp add: convertType_def isScalarAttribute_def emptyAttribute_def demoEnv_def)

text \<open>
  Claim C8, amended.  For every attribute whose \<^verbatim>\<open>type\<close> is truthy and is none of the
  names \<^verbatim>\<open>convertType\<close> tests for, the result is \<^verbatim>\<open>String\<close>, with \<^verbatim>\<open>!\<close> by the rule for
  required scalars, and nothing is thrown.  \<^verbatim>\<open>convertType\<close> throws only when a registry
  lookup misses: the component of a component attribute, or the target model of a
  relation.
\<close>

theorem convertType_unrecognized_type:
  "(truthy (attribute.type a) \<and> attribute.type a \<notin> set recognizedTypes \<longrightarrow>
      convertType e a modelName attributeName rootType action =
        Inr (''String'' @
             (if truthy (required a) \<and>
                 \<not> (rootType = ''mutation'' \<and> (action = ''update'' \<or> default a \<noteq> JUndefined))
              then ''!'' else [])))
   \<and> (convertType e a modelName attributeName rootType action = Inl err \<longrightarrow>
        err = TypeError \<and>
        ((attribute.type a = JStr ''component'' \<and>
          components e (case component a of Some k \<Rightarrow> k | None \<Rightarrow> ''undefined'') = None)
         \<or> (\<not> isScalarAttribute a \<and> attribute.type a \<noteq> JStr ''dynamiczone'' \<and>
             getModel e (js_or (model a) (collection a)) (plugin a) = None)))"
  by (auto simp add: convertType_def isScalarAttribute_def scalarTypeName_def Let_def recognizedTypes_def
      split: option.splits if_splits)

theorem convertType_unrecognized_type_witness:
  "convertType demoEnv (emptyAttribute\<lparr>attribute.type := JStr ''richtext'', required := JBool True\<rparr>)
     ''Article'' ''body'' ''query'' [] = Inr ''String!''
   \<and> convertType demoEnv
       (emptyAttribute\<lparr>attribute.type := JStr ''component'', component := Some ''shared.seo''\<rparr>)
       ''Article'' ''seo'' ''query'' [] = Inl TypeError
   \<and> components demoEnv ''shared.seo'' = None"
  using convertType_unrecognized_type
    [of "emptyAttribute\<lparr>attribute.type := JStr ''richtext'', required := JBool True\<rparr>"
        demoEnv "''Article''" "''body''" "''query''" "[]" TypeError]
    convertType_unrecognized_type
    [of "emptyAttribute\<lparr>attribute.type := JStr ''component'', component := Some ''shared.seo''\<rparr>"
        demoEnv "''Article''" "''seo''" "''query''" "[]" TypeError]
  by (simp add: emptyAttribute_def recognizedTypes_def demoEnv_def convertType_def isScalarAttribute_def)

section \<open>Payload arguments\<close>

text \<open>
  Claim C4.  \<^verbatim>\<open>generateInputPayloadArguments\<close> is decided by the action and
  \<^verbatim>\<open>model.kind\<close>.  For \<^verbatim>\<open>create\<close>, every kind gets the input
  \<^verbatim>\<open><mutationName>Input { data: <InputName> }\<close> and the payload type.  For \<^verbatim>\<open>update\<close> the
  input is \<^verbatim>\<open>{ data: edit<InputName> }\<close> for a single type and
  \<^verbatim>\<open>{ where: InputID, data: edit<InputName> }\<close> otherwise.  For \<^verbatim>\<open>delete\<close> a single type
  gets the payload type alone, any other kind the input \<^verbatim>\<open>{ where: InputID }\<close> and the
  payload.  The payload is always
  \<^verbatim>\<open>type <mutationName>Payload { <singularName>: <globalId> }\<close>, and \<^verbatim>\<open>InputID\<close> is
  \<^verbatim>\<open>{ id: ID!}\<close>.
\<close>

theorem generateInputPayloadArguments_table:
  "(let payload = ''type '' @ mutationName @ ''Payload { '' @ toSingular e name @ '': '' @ globalId m @ '' }'';
        indent = ''          '';
        closing = nl @ ''        ''
    in
      generateInputPayloadArguments e m name mutationName ''create'' =
        Some (nl @ indent @ ''input '' @ mutationName @ ''Input { data: '' @ toInputName e name @ '' }'' @
              nl @ indent @ payload @ closing)
    \<and> generateInputPayloadArguments e m name mutationName ''update'' =
        (if model.kind m = ''singleType''
         then Some (nl @ indent @ ''input '' @ mutationName @ ''Input  { data: edit'' @ toInputName e name @ '' }'' @
                    nl @ indent @ payload @ closing)
         else Some (nl @ indent @ ''input '' @ mutationName @ ''Input  { where: InputID, data: edit'' @
                      toInputName e name @ '' }'' @
                    nl @ indent @ payload @ closing))
    \<and> generateInputPayloadArguments e m name mutationName ''delete'' =
        (if model.kind m = ''singleType''
         then Some (nl @ indent @ payload @ closing)
         else Some (nl @ indent @ ''input '' @ mutationName @ ''Input  { where: InputID }'' @
                    nl @ indent @ payload @ closing))
    \<and> addInput = nl @ ''      input InputID { id: ID!}'' @ nl @ ''    '')"
  by (simp add: generateInputPayloadArguments_def addInput_def Let_def)

theorem generateInputPayloadArguments_table_witness:
  "generateInputPayloadArguments demoEnv homepageModel ''homepage'' ''deleteHomepage'' ''delete'' =
     Some (nl @ ''          type deleteHomepagePayload { homepage: Homepage }'' @ nl @ ''        '')
   \<and> generateInputPayloadArguments demoEnv articleModel ''article'' ''deleteArticle'' ''delete'' =
     Some (nl @ ''          input deleteArticleInput  { where: InputID }'' @
           nl @ ''          type deleteArticlePayload { article: Article }'' @ nl @ ''        '')"
  using generateInputPayloadArguments_table [of "''deleteHomepage''" demoEnv "''homepage''" homepageModel]
    generateInputPayloadArguments_table [of "''deleteArticle''" demoEnv "''article''" articleModel]
  by (simp add: Let_def demoEnv_def homepageModel_def articleModel_def)

section \<open>Input types\<close>

text \<open>
  Claim C7.  For a model whose attribute map is empty, or all of whose attributes are
  disabled by the visibility predicate, \<^verbatim>\<open>generateInputModel\<close> returns a create input
  with the one field \<^verbatim>\<open>_: String\<close> and an edit input with the one field \<^verbatim>\<open>id: ID\<close>
  when \<^verbatim>\<open>allowIds\<close> holds and \<^verbatim>\<open>_: String\<close> when it does not.
\<close>

theorem generateInputModel_degenerate:
  assumes "attributes m = [] \<or>
           (\<forall>attr \<in> set (map fst (attributes m)). \<not> isTypeAttributeEnabled e m attr)"
  shows "generateInputModel e m name allowIds =
           Inr (nl @ ''      input '' @ upperFirst (toSingular e name) @ ''Input {'' @ nl @
                ''        _: String'' @ nl @
                ''      }'' @ nl @ nl @
                ''      input edit'' @ upperFirst (toSingular e name) @ ''Input {'' @ nl @
                ''        '' @ (if allowIds then ''id: ID'' else ''_: String'') @ nl @
                ''      }'' @ nl @ ''     '')"
  using assms by (auto simp add: generateInputModel_def Let_def list_all_iff)

theorem generateInputModel_degenerate_witness:
  "map fst (attributes secretModel) = [''token'', ''salt'']
   \<and> filter (isTypeAttributeEnabled demoEnv secretModel) (map fst (attributes secretModel)) = []
   \<and> generateInputModel demoEnv secretModel ''secret'' False =
       Inr (nl @ ''      input SecretInput {'' @ nl @
            ''        _: String'' @ nl @
            ''      }'' @ nl @ nl @
            ''      input editSecretInput {'' @ nl @
            ''        _: String'' @ nl @
            ''      }'' @ nl @ ''     '')
   \<and> generateInputModel demoEnv homepageModel ''homepage'' True =
       Inr (nl @ ''      input HomepageInput {'' @ nl @
            ''        _: String'' @ nl @
            ''      }'' @ nl @ nl @
            ''      input editHomepageInput {'' @ nl @
            ''        id: ID'' @ nl @
            ''      }'' @ nl @ ''     '')"
proof -
  have h: "\<forall>attr \<in> set (map fst (attributes secretModel)). \<not> isTypeAttributeEnabled demoEnv secretModel attr"
    by (simp add: secretModel_def isTypeAttributeEnabled_def demoEnv_def)
  have e: "attributes homepageModel = []"
    by (simp add: homepageModel_def)
  show ?thesis
    using generateInputModel_degenerate [OF disjI2, OF h, of "''secret''" False]
      generateInputModel_degenerate [OF disjI1, OF e, of demoEnv "''homepage''" True]
    by (simp add: demoEnv_def toUpperChar_letters secretModel_def isTypeAttributeEnabled_def)
qed


text \<open>
  Claim C10, as stated: the create input never receives an \<^verbatim>\<open>id\<close> field, and the edit
  input has none when \<^verbatim>\<open>allowIds\<close> is false.  Nothing keeps an attribute named \<^verbatim>\<open>id\<close>
  out of the lines: a model with an enabled integer attribute \<^verbatim>\<open>id\<close> gets \<^verbatim>\<open>id: Int\<close> in
  both inputs with \<^verbatim>\<open>allowIds\<close> false.
\<close>

theorem generateInputModel_id_attribute_counterexample:
  "generateInputModel demoEnv tagModel ''tag'' False =
     Inr (nl @ ''      input TagInput {'' @ nl @ nl @
          ''        id: Int'' @ nl @ ''name: String'' @ nl @
          ''      }'' @ nl @ nl @
          ''      input editTagInput {'' @ nl @
          ''        '' @ nl @
          ''        id: Int'' @ nl @ ''name: String'' @ nl @
          ''      }'' @ nl @ ''    '')"
  by (simp add: generateInputModel_def Let_def tagModel_def demoEnv_def isTypeAttributeEnabled_def
      convertType_def isScalarAttribute_def scalarTypeName_def emptyAttribute_def toUpperChar_letters)

text \<open>
  Claim C10, amended.  For a model with at least one enabled attribute whose enabled
  attributes all convert, the edit input of \<^verbatim>\<open>generateInputModel\<close> starts with the line
  \<^verbatim>\<open>id: ID\<close> when \<^verbatim>\<open>allowIds\<close> holds and with an empty line when it does not, followed by
  the converted attributes; the create input holds the converted attributes only,
  whatever \<^verbatim>\<open>allowIds\<close> is.  The lines of both inputs are one per enabled attribute, in
  order, each the attribute's name, a colon and its converted type; so, for attribute
  names without a colon, either list of lines has a field named \<^verbatim>\<open>id\<close> exactly when
  the model has an enabled attribute named \<^verbatim>\<open>id\<close>.
\<close>

theorem generateInputModel_allowIds:
  assumes enabled: "\<exists>attr \<in> set (map fst (attributes m)). isTypeAttributeEnabled e m attr"
    and cs: "fieldLines e m [] (filter (isTypeAttributeEnabled e m) (map fst (attributes m))) = Inr cs"
    and es: "fieldLines e m ''update'' (filter (isTypeAttributeEnabled e m) (map fst (attributes m))) = Inr es"
  shows "generateInputModel e m name allowIds =
           Inr (nl @ ''      input '' @ upperFirst (toSingular e name) @ ''Input {'' @ nl @ nl @
                ''        '' @ join nl cs @ nl @
                ''      }'' @ nl @ nl @
                ''      input edit'' @ upperFirst (toSingular e name) @ ''Input {'' @ nl @
                ''        '' @ (if allowIds then ''id: ID'' else []) @ nl @
                ''        '' @ join nl es @ nl @
                ''      }'' @ nl @ ''    '')
         \<and> list_all2
             (\<lambda>k l. \<exists>t. convertType e
                            (case map_of (attributes m) k of Some a \<Rightarrow> a | None \<Rightarrow> emptyAttribute)
                            (globalId m) k ''mutation'' [] = Inr t \<and> l = k @ '': '' @ t)
             (filter (isTypeAttributeEnabled e m) (map fst (attributes m))) cs
         \<and> list_all2
             (\<lambda>k l. \<exists>t. convertType e
                            (case map_of (attributes m) k of Some a \<Rightarrow> a | None \<Rightarrow> emptyAttribute)
                            (globalId m) k ''mutation'' ''update'' = Inr t \<and> l = k @ '': '' @ t)
             (filter (isTypeAttributeEnabled e m) (map fst (attributes m))) es
         \<and> ((\<forall>k \<in> set (map fst (attributes m)). CHR '':'' \<notin> set k) \<longrightarrow>
              map fieldName cs = filter (isTypeAttributeEnabled e m) (map fst (attributes m)) \<and>
              map fieldName es = filter (isTypeAttributeEnabled e m) (map fst (attributes m)) \<and>
              (''id'' \<in> set (map fieldName cs) \<longleftrightarrow>
                 ''id'' \<in> set (map fst (attributes m)) \<and> isTypeAttributeEnabled e m ''id'') \<and>
              (''id'' \<in> set (map fieldName es) \<longleftrightarrow>
                 ''id'' \<in> set (map fst (attributes m)) \<and> isTypeAttributeEnabled e m ''id''))"
proof -
  let ?ks = "filter (isTypeAttributeEnabled e m) (map fst (attributes m))"
  have nonempty: "attributes m \<noteq> []"
    using enabled by auto
  have notall: "\<not> list_all (\<lambda>attr. \<not> isTypeAttributeEnabled e m attr) (map fst (attributes m))"
    using enabled by (auto simp add: list_all_iff)
  have shape: "generateInputModel e m name allowIds =
           Inr (nl @ ''      input '' @ upperFirst (toSingular e name) @ ''Input {'' @ nl @ nl @
                ''        '' @ join nl cs @ nl @
                ''      }'' @ nl @ nl @
                ''      input edit'' @ upperFirst (toSingular e name) @ ''Input {'' @ nl @
                ''        '' @ (if allowIds then ''id: ID'' else []) @ nl @
                ''        '' @ join nl es @ nl @
                ''      }'' @ nl @ ''    '')"
    using nonempty notall cs es by (simp add: generateInputModel_def Let_def)
  have names: "(\<forall>k \<in> set (map fst (attributes m)). CHR '':'' \<notin> set k) \<longrightarrow>
                 map fieldName cs = ?ks \<and> map fieldName es = ?ks"
  proof
    assume "\<forall>k \<in> set (map fst (attributes m)). CHR '':'' \<notin> set k"
    then have c: "\<forall>k \<in> set ?ks. CHR '':'' \<notin> set k"
      by auto
    show "map fieldName cs = ?ks \<and> map fieldName es = ?ks"
      using fieldName_lines [OF fieldLines_lines [OF cs] c]
        fieldName_lines [OF fieldLines_lines [OF es] c] by simp
  qed
  have mem: "''id'' \<in> set ?ks \<longleftrightarrow>
               ''id'' \<in> set (map fst (attributes m)) \<and> isTypeAttributeEnabled e m ''id''"
    by auto
  show ?thesis
    using shape fieldLines_lines [OF cs] fieldLines_lines [OF es] names mem by auto
qed

theorem generateInputModel_allowIds_witness:
  "generateInputModel demoEnv articleModel ''article'' True =
     Inr (nl @ ''      input ArticleInput {'' @ nl @ nl @
          ''        title: String!'' @ nl @ ''views: Int'' @ nl @
          ''      }'' @ nl @ nl @
          ''      input editArticleInput {'' @ nl @
          ''        id: ID'' @ nl @
          ''        title: String'' @ nl @ ''views: Int'' @ nl @
          ''      }'' @ nl @ ''    '')
   \<and> generateInputModel demoEnv articleModel ''article'' False =
     Inr (nl @ ''      input ArticleInput {'' @ nl @ nl @
          ''        title: String!'' @ nl @ ''views: Int'' @ nl @
          ''      }'' @ nl @ nl @
          ''      input editArticleInput {'' @ nl @
          ''        '' @ nl @
          ''        title: String'' @ nl @ ''views: Int'' @ nl @
          ''      }'' @ nl @ ''    '')
   \<and> map fieldName [''title: String!'', ''views: Int''] = [''title'', ''views'']
   \<and> ''id'' \<notin> set (map fieldName [''title: String'', ''views: Int''])"
proof -
  have enabled: "\<exists>attr \<in> set (map fst (attributes articleModel)). isTypeAttributeEnabled demoEnv articleModel attr"
    by (simp add: articleModel_def isTypeAttributeEnabled_def demoEnv_def)
  have cs: "fieldLines demoEnv articleModel []
              (filter (isTypeAttributeEnabled demoEnv articleModel) (map fst (attributes articleModel))) =
            Inr [''title: String!'', ''views: Int'']"
    by (simp only: article_enabled article_create_lines)
  have es: "fieldLines demoEnv articleModel ''update''
              (filter (isTypeAttributeEnabled demoEnv articleModel) (map fst (attributes articleModel))) =
            Inr [''title: String'', ''views: Int'']"
    by (simp only: article_enabled article_edit_lines)
  have colon: "\<forall>k \<in> set (map fst (attributes articleModel)). CHR '':'' \<notin> set k"
    by (simp add: articleModel_def)
  have t: "generateInputModel demoEnv articleModel ''article'' True =
     Inr (nl @ ''      input ArticleInput {'' @ nl @ nl @
          ''        title: String!'' @ nl @ ''views: Int'' @ nl @
          ''      }'' @ nl @ nl @
          ''      input editArticleInput {'' @ nl @
          ''        id: ID'' @ nl @
          ''        title: String'' @ nl @ ''views: Int'' @ nl @
          ''      }'' @ nl @ ''    '')"
    using generateInputModel_allowIds [OF enabled cs es, of "''article''" True]
    by (simp add: demoEnv_def toUpperChar_letters)
  have f: "generateInputModel demoEnv articleModel ''article'' False =
     Inr (nl @ ''      input ArticleInput {'' @ nl @ nl @
          ''        title: String!'' @ nl @ ''views: Int'' @ nl @
          ''      }'' @ nl @ nl @
          ''      input editArticleInput {'' @ nl @
          ''        '' @ nl @
          ''        title: String'' @ nl @ ''views: Int'' @ nl @
          ''      }'' @ nl @ ''    '')"
    using generateInputModel_allowIds [OF enabled cs es, of "''article''" False]
    by (simp add: demoEnv_def toUpperChar_letters)
  have n: "map fieldName [''title: String!'', ''views: Int''] =
             filter (isTypeAttributeEnabled demoEnv articleModel) (map fst (attributes articleModel))
           \<and> map fieldName [''title: String'', ''views: Int''] =
             filter (isTypeAttributeEnabled demoEnv articleModel) (map fst (attributes articleModel))"
    using generateInputModel_allowIds [OF enabled cs es, of "''article''" False] colon
    by blast
  show ?thesis
    using t f n by (simp only: article_enabled) simp
qed

section \<open>The polymorphic union: members\<close>

text \<open>
  Claim C6, as stated: the member list of \<^verbatim>\<open>union Morph\<close> is duplicate-free.  The list
  is the \<^verbatim>\<open>filter\<close> and \<^verbatim>\<open>map\<close> of the parsed definitions and nothing removes a
  repeated name: a text that defines the object type \<^verbatim>\<open>A\<close> twice gives
  \<^verbatim>\<open>union Morph = A | A\<close>.
\<close>

theorem union_duplicate_counterexample:
  "addPolymorphicUnionType parseTable twiceText =
     Inr \<lparr> unionType.definition' = ''union Morph = A | A'',
           resolvers = [(''Morph'', [(''__resolveType'', resolveType)])] \<rparr>
   \<and> \<not> distinct
       (unionMembers
          [\<lparr> definitionNode.kind = ''ObjectTypeDefinition'', name_value = ''A'' \<rparr>,
           \<lparr> definitionNode.kind = ''ObjectTypeDefinition'', name_value = ''A'' \<rparr>,
           \<lparr> definitionNode.kind = ''ObjectTypeDefinition'', name_value = ''Query'' \<rparr>])"
  by (simp add: addPolymorphicUnionType_def parseTable_def twiceText_def blogText_def Let_def
      unionMembers_def)

text \<open>
  Claim C6, amended.  When the text parses, \<^verbatim>\<open>addPolymorphicUnionType\<close> returns
  \<^verbatim>\<open>union Morph = A | B | ...\<close> with the \<^verbatim>\<open>__resolveType\<close> rule, whose members are the
  names of the object type definitions of the text other than \<^verbatim>\<open>Query\<close>, in order of
  appearance, each name once for every definition that carries it (so the list is
  duplicate-free only when those names are); with no such definition it returns the
  empty definition and no resolvers.  A text that does not parse makes the call throw.
  The result depends on the text only through the parsed definitions.
\<close>

theorem addPolymorphicUnionType_members:
  "(parse text = Inr definitions \<longrightarrow>
      addPolymorphicUnionType parse text =
        Inr (if unionMembers definitions = []
             then \<lparr> unionType.definition' = [], resolvers = [] \<rparr>
             else \<lparr> unionType.definition' = ''union Morph = '' @ join '' | '' (unionMembers definitions),
                    resolvers = [(''Morph'', [(''__resolveType'', resolveType)])] \<rparr>))
   \<and> (parse text = Inl err \<longrightarrow> addPolymorphicUnionType parse text = Inl err)
   \<and> subseq (unionMembers definitions) (map name_value definitions)
   \<and> count_list (unionMembers definitions) n =
       (if n = ''Query'' then 0
        else length (filter (\<lambda>def. definitionNode.kind def = ''ObjectTypeDefinition'' \<and>
                                   name_value def = n) definitions))
   \<and> (parse text = parse' text' \<longrightarrow>
        addPolymorphicUnionType parse text = addPolymorphicUnionType parse' text')"
proof -
  have c: "count_list (unionMembers definitions) n =
       (if n = ''Query'' then 0
        else length (filter (\<lambda>def. definitionNode.kind def = ''ObjectTypeDefinition'' \<and>
                                   name_value def = n) definitions))"
  proof (cases "n = ''Query''")
    case True
    then show ?thesis
      by (simp add: unionMembers_def count_list_map_filter)
  next
    case False
    then show ?thesis
      by (auto simp add: unionMembers_def count_list_map_filter
          intro!: arg_cong [where f = length] filter_cong)
  qed
  have s: "subseq (unionMembers definitions) (map name_value definitions)"
    by (simp add: unionMembers_def subseq_map_filter)
  show ?thesis
    using c s by (simp add: addPolymorphicUnionType_def unionMembers_def Let_def)
qed

theorem addPolymorphicUnionType_members_witness:
  "addPolymorphicUnionType parseTable blogText =
     Inr \<lparr> unionType.definition' = ''union Morph = Article | Author'',
           resolvers = [(''Morph'', [(''__resolveType'', resolveType)])] \<rparr>
   \<and> addPolymorphicUnionType parseTable scalarText =
     Inr \<lparr> unionType.definition' = [], resolvers = [] \<rparr>
   \<and> addPolymorphicUnionType parseTable ''type {'' = Inl GraphQLError"
proof -
  have b: "parseTable blogText =
     Inr [\<lparr> definitionNode.kind = ''ObjectTypeDefinition'', name_value = ''Article'' \<rparr>,
          \<lparr> definitionNode.kind = ''InputObjectTypeDefinition'', name_value = ''ArticleInput'' \<rparr>,
          \<lparr> definitionNode.kind = ''ObjectTypeDefinition'', name_value = ''Author'' \<rparr>,
          \<lparr> definitionNode.kind = ''ObjectTypeDefinition'', name_value = ''Query'' \<rparr>]"
    by (simp add: parseTable_def)
  have s: "parseTable scalarText =
     Inr [\<lparr> definitionNode.kind = ''ScalarTypeDefinition'', name_value = ''JSON'' \<rparr>,
          \<lparr> definitionNode.kind = ''ObjectTypeDefinition'', name_value = ''Query'' \<rparr>]"
    by (simp add: parseTable_def scalarText_def blogText_def twiceText_def)
  have e: "parseTable ''type {'' = Inl GraphQLError"
    by (simp add: parseTable_def scalarText_def blogText_def twiceText_def)
  show ?thesis
    using b s e
      addPolymorphicUnionType_members
        [of parseTable blogText
            "[\<lparr> definitionNode.kind = ''ObjectTypeDefinition'', name_value = ''Article'' \<rparr>,
              \<lparr> definitionNode.kind = ''InputObjectTypeDefinition'', name_value = ''ArticleInput'' \<rparr>,
              \<lparr> definitionNode.kind = ''ObjectTypeDefinition'', name_value = ''Author'' \<rparr>,
              \<lparr> definitionNode.kind = ''ObjectTypeDefinition'', name_value = ''Query'' \<rparr>]"
            GraphQLError "''Article''" parseTable blogText]
      addPolymorphicUnionType_members
        [of parseTable scalarText
            "[\<lparr> definitionNode.kind = ''ScalarTypeDefinition'', name_value = ''JSON'' \<rparr>,
              \<lparr> definitionNode.kind = ''ObjectTypeDefinition'', name_value = ''Query'' \<rparr>]"
            GraphQLError "''JSON''" parseTable scalarText]
      addPolymorphicUnionType_members
        [of parseTable "''type {''" "[]" GraphQLError "''A''" parseTable "''type {''"]
    by (simp add: unionMembers_def)
qed

section \<open>Resolver metadata: which entries are annotated\<close>

text \<open>
  Claim C9, as stated: each resolver entry of the fragment's resolver map is annotated.
  An entry that is not a plain object, such as a resolver function, is skipped by the
  \<^verbatim>\<open>_.isPlainObject\<close> guard and the fragment comes back unchanged.
\<close>

theorem attachMetadata_function_counterexample:
  "attachMetadataToResolvers fragmentFn (JStr ''article'') JUndefined = fragmentFn
   \<and> js_get (js_get (resolver fragmentFn) ''Query'') ''articles'' = JFun 1
   \<and> js_get (js_get (js_get (resolver (attachMetadataToResolvers fragmentFn (JStr ''article'') JUndefined))
         ''Query'') ''articles'') ''_metadatas'' = JUndefined"
  by (simp add: attachMetadataToResolvers_def fragmentFn_def emptySchema_def annotateType_def
      annotateEntry_def)

text \<open>
  Claim C9, amended.  For a fragment whose resolver map is a plain object, each entry
  \<^verbatim>\<open>resolver[type][name]\<close> that is a plain object gets the field \<^verbatim>\<open>_metadatas\<close> set to
  \<^verbatim>\<open>{api, plugin}\<close> and keeps the value of every other field; an entry that is not a
  plain object is left as it is; nothing but the resolver map of the fragment changes.
\<close>

theorem attachMetadataToResolvers_annotates:
  assumes "resolver s = JObj types"
    and "map_of types t = Some (JObj entries)"
    and "map_of entries n = Some entry"
  shows "(isPlainObject entry \<longrightarrow>
            isPlainObject (js_get (js_get (resolver (attachMetadataToResolvers s api plugin')) t) n) \<and>
            js_get (js_get (js_get (resolver (attachMetadataToResolvers s api plugin')) t) n) ''_metadatas'' =
              JObj [(''api'', api), (''plugin'', plugin')] \<and>
            (\<forall>k. k \<noteq> ''_metadatas'' \<longrightarrow>
               js_get (js_get (js_get (resolver (attachMetadataToResolvers s api plugin')) t) n) k =
               js_get entry k))
         \<and> (\<not> isPlainObject entry \<longrightarrow>
              js_get (js_get (resolver (attachMetadataToResolvers s api plugin')) t) n = entry)
         \<and> attachMetadataToResolvers s api plugin' =
             s\<lparr> resolver := resolver (attachMetadataToResolvers s api plugin') \<rparr>"
proof -
  have e: "js_get (js_get (resolver (attachMetadataToResolvers s api plugin')) t) n =
           annotateEntry api plugin' entry"
    using js_get_attach [OF assms(1) assms(2)] js_get_annotateType [OF assms(3)] by simp
  have p: "isPlainObject entry \<Longrightarrow> \<exists>props. entry = JObj props"
    by (cases entry) auto
  have u: "attachMetadataToResolvers s api plugin' =
             s\<lparr> resolver := resolver (attachMetadataToResolvers s api plugin') \<rparr>"
    by (simp add: attachMetadataToResolvers_def Let_def split: jsval.splits)
  have a: "isPlainObject entry \<longrightarrow>
            isPlainObject (annotateEntry api plugin' entry) \<and>
            js_get (annotateEntry api plugin' entry) ''_metadatas'' =
              JObj [(''api'', api), (''plugin'', plugin')] \<and>
            (\<forall>k. k \<noteq> ''_metadatas'' \<longrightarrow> js_get (annotateEntry api plugin' entry) k = js_get entry k)"
    using p by (auto simp add: js_get_annotateEntry) (simp add: annotateEntry_def)
  have b: "\<not> isPlainObject entry \<longrightarrow> annotateEntry api plugin' entry = entry"
    by (cases entry) (simp_all add: annotateEntry_def)
  show ?thesis
    using a b u by (simp only: e)
qed

theorem attachMetadataToResolvers_annotates_witness:
  "js_get (js_get (js_get (resolver (attachMetadataToResolvers fragmentObj (JStr ''article'') JUndefined))
       ''Query'') ''articles'') ''_metadatas'' = JObj [(''api'', JStr ''article''), (''plugin'', JUndefined)]
   \<and> js_get (js_get (js_get (resolver (attachMetadataToResolvers fragmentObj (JStr ''article'') JUndefined))
       ''Query'') ''articles'') ''description'' = JStr ''All articles''
   \<and> js_get (js_get (resolver (attachMetadataToResolvers fragmentObj (JStr ''article'') JUndefined))
       ''Query'') ''count'' = JFun 1"
proof -
  have r: "resolver fragmentObj =
     JObj [(''Query'',
              JObj [(''articles'',
                     JObj [(''description'', JStr ''All articles''),
                           (''resolver'', JStr ''application::article.article.find'')]),
                    (''count'', JFun 1)])]"
    by (simp add: fragmentObj_def emptySchema_def)
  have t: "map_of [(''Query'',
              JObj [(''articles'',
                     JObj [(''description'', JStr ''All articles''),
                           (''resolver'', JStr ''application::article.article.find'')]),
                    (''count'', JFun 1)])] ''Query'' =
           Some (JObj [(''articles'',
                     JObj [(''description'', JStr ''All articles''),
                           (''resolver'', JStr ''application::article.article.find'')]),
                    (''count'', JFun 1)])"
    by simp
  have n1: "map_of [(''articles'',
                     JObj [(''description'', JStr ''All articles''),
                           (''resolver'', JStr ''application::article.article.find'')]),
                    (''count'', JFun 1)] ''articles'' =
            Some (JObj [(''description'', JStr ''All articles''),
                           (''resolver'', JStr ''application::article.article.find'')])"
    by simp
  have n2: "map_of [(''articles'',
                     JObj [(''description'', JStr ''All articles''),
                           (''resolver'', JStr ''application::article.article.find'')]),
                    (''count'', JFun 1)] ''count'' = Some (JFun 1)"
    by simp
  show ?thesis
    using attachMetadataToResolvers_annotates [OF r t n1, of "JStr ''article''" JUndefined]
      attachMetadataToResolvers_annotates [OF r t n2, of "JStr ''article''" JUndefined]
    by simp
qed

section \<open>Merging fragments\<close>




end
